theory Spec2Isabelle
  imports Complex_Main
begin

section \<open>Contrato de Sangue: the character record\<close>

text \<open>
  The actor class \<open>ContractoActor\<close> keeps its data in JavaScript objects. The embedding
  reads them as records. A JavaScript number is modelled by an integer: the attributes,
  the dice pool, the dice and the modifiers of this system are whole numbers, on which
  \<open>+\<close>, \<open>-\<close>, \<open>Math.max\<close> and \<open>Math.min\<close> are exact. A field that the code reads
  through \<open>??\<close> is an \<open>int option\<close> (\<open>None\<close> for \<open>undefined\<close> or \<open>null\<close>). The field
  \<open>reservaDados.current\<close>, which the code tests with \<open>typeof\<close>, is a \<open>jsval\<close>.
  The two objects that the code indexes with a key given by the caller,
  \<open>CONFIG.Contrato.skills\<close> and \<open>system.skills\<close>, are plain objects: besides their own
  keys they answer the keys that every object inherits from \<open>Object.prototype\<close>.
\<close>

datatype jsval = JUndefined | JNull | JBoolean bool | JNumber int | JString string

text \<open>\<open>system.attributes\<close>\<close>

record attributes =
  humanidade :: "int option"
  bestialidade :: "int option"
  mortalidade :: "int option"

text \<open>\<open>system.reservaDados\<close>; the field \<open>max\<close> of the source is \<open>maximum\<close> here.\<close>

record reservaDados =
  current :: jsval
  maximum :: "int option"

text \<open>\<open>system.mortalidade\<close>, the derived penalty and hunt frequency.\<close>

record mortalidadeData =
  penalty :: "int option"
  hunt :: "string option"

text \<open>
  The entries pushed on the \<open>history\<close> flag. \<open>MortalidadeEntry timestamp level mortalidade\<close>
  is the object of type \<open>'mortalidade'\<close>; \<open>RollEntry timestamp skill total humanidade
  bestialidade mort\<close> is the object of type \<open>'roll'\<close>, whose last field is whatever
  \<open>system.attributes.mortalidade\<close> holds when the entry is built.
\<close>

datatype history_entry =
    MortalidadeEntry int string int
  | RollEntry int string int int int "int option"

text \<open>\<open>flags['contrato-de-sangue']\<close>; an absent \<open>history\<close> is the empty list.\<close>

record flags =
  lastMortalityLevel :: "string option"
  history :: "history_entry list"

text \<open>The actor: the fields of \<open>this.system\<close>, and the flags of the system's scope.\<close>

record actor =
  attributes :: attributes
  skills :: "string \<rightharpoonup> int"
  reservaDados :: reservaDados
  mortalidadeData :: mortalidadeData
  flags :: flags

section \<open>The host: calendar module, console, notifications, chat\<close>

record date =
  year :: int
  month :: int
  day :: int

text \<open>
  What \<open>game.modules.get('foundryvtt-simple-calendar')\<close> returns: \<open>None\<close> when the module
  is not installed. \<open>currentDate\<close> is the value of \<open>api.currentDate()\<close> when the API has
  that function; \<open>addEvent_throws\<close> says whether \<open>api.addEvent\<close> raises.
\<close>

record sc_api =
  currentDate :: "date option"
  addEvent_throws :: bool

record sc_module =
  active :: bool
  api :: "sc_api option"

datatype console_warning = CalendarUnavailable | AddEventFailed

text \<open>
  The two messages of \<open>ui.notifications.warn\<close> in \<open>rollSkill\<close>: the unknown skill, with
  the key, and the empty dice pool, with the label of the skill.
\<close>

datatype notification = UnknownSkill string | NoResourceAvailable string

text \<open>
  The values that the chat message of a roll interpolates: label of the skill, d12,
  skill value, kind of die spent, its contribution, situational modifier and total.
\<close>

record chat_message =
  msg_label :: string
  msg_d12 :: int
  msg_skill :: int
  msg_umbral :: bool
  msg_d6Value :: int
  msg_situationalMod :: int
  msg_total :: int

text \<open>
  What an operation does outside the actor, in order: \<open>console.warn\<close>,
  \<open>ui.notifications.warn\<close>, \<open>api.addEvent\<close> (date, title key, frequency named in the
  description) and \<open>ChatMessage.create\<close>.
\<close>

datatype effect =
    ConsoleWarn console_warning
  | NotifyWarn notification
  | AddEvent date string string
  | ChatCreate chat_message

section \<open>The attribute deriver\<close>

definition scheduleHuntEvent :: "sc_module option \<Rightarrow> string \<Rightarrow> effect list" where
  "scheduleHuntEvent scModule frequency =
     (case scModule of
        None \<Rightarrow> [ConsoleWarn CalendarUnavailable]
      | Some m \<Rightarrow>
          (case api m of
             None \<Rightarrow> [ConsoleWarn CalendarUnavailable]
           | Some sc \<Rightarrow>
               if \<not> active m then [ConsoleWarn CalendarUnavailable]
               else
                 let cur = (case currentDate sc of
                              Some d \<Rightarrow> d
                            | None \<Rightarrow> \<lparr>year = 0, month = 0, day = 0\<rparr>);
                     deltaDays = (if frequency = ''weekly'' then 7
                                  else if frequency = ''twice-weekly'' then 3
                                  else if frequency = ''daily'' then 1
                                  else if frequency = ''constant'' then 0
                                  else 0);
                     nextDate = cur\<lparr>day := day cur + deltaDays\<rparr>
                 in if addEvent_throws sc then [ConsoleWarn AddEventFailed]
                    else [AddEvent nextDate ''CONTRATO.EVENT.MORTALITY'' frequency]))"

text \<open>
  \<open>prepareDerivedData\<close>. \<open>scModule\<close> is the calendar module of the host and \<open>now\<close> the
  reading of \<open>Date.now()\<close>. The result is the actor after the call and what the call did
  outside it.

  Modelled from the spec: \<open>setFlag\<close> and \<open>getFlag\<close> belong to the host. Following the
  persistence collaborator of the specification (a flag store scoped per character,
  available synchronously), \<open>setFlag\<close> writes the flag at once and \<open>getFlag\<close> reads it.
\<close>

definition prepareDerivedData :: "sc_module option \<Rightarrow> int \<Rightarrow> actor \<Rightarrow> actor \<times> effect list" where
  "prepareDerivedData scModule now a =
     (let h = (case humanidade (attributes a) of None \<Rightarrow> 6 | Some v \<Rightarrow> v);
          b0 = (case bestialidade (attributes a) of None \<Rightarrow> 6 | Some v \<Rightarrow> v);
          mort = (case mortalidade (attributes a) of None \<Rightarrow> 0 | Some v \<Rightarrow> v);
          total = h + b0;
          b = (if total \<noteq> 12 then max 0 (12 - h) else b0);
          mx = b + 1;
          cur = (case current (reservaDados a) of
                   JNumber c \<Rightarrow> if c > mx then mx else c
                 | _ \<Rightarrow> mx);
          tier = (if mort \<ge> 3 \<and> mort \<le> 5 then (1, ''weekly'')
                  else if mort \<ge> 6 \<and> mort \<le> 8 then (2, ''twice-weekly'')
                  else if mort \<ge> 9 \<and> mort \<le> 11 then (3, ''daily'')
                  else if mort \<ge> 12 then (4, ''constant'')
                  else (0, ''none''));
          huntFrequency = snd tier;
          a1 = a\<lparr>attributes := \<lparr>humanidade = Some h, bestialidade = Some b,
                                 mortalidade = Some mort\<rparr>,
                 reservaDados := \<lparr>current = JNumber cur, maximum = Some mx\<rparr>,
                 mortalidadeData := \<lparr>penalty = Some (fst tier), hunt = Some huntFrequency\<rparr>\<rparr>
      in if lastMortalityLevel (flags a) \<noteq> Some huntFrequency then
           (a1\<lparr>flags := \<lparr>lastMortalityLevel = Some huntFrequency,
                          history = history (flags a)
                                    @ [MortalidadeEntry now huntFrequency mort]\<rparr>\<rparr>,
            if huntFrequency \<noteq> ''none'' then scheduleHuntEvent scModule huntFrequency else [])
         else (a1, []))"

section \<open>The roll resolver\<close>

text \<open>
  \<open>CONFIG.Contrato.skills\<close>, as the \<open>init\<close> hook sets it. The label of a skill is the
  localized string of a key; the key stands for it here.
\<close>

record skill_config =
  label :: string
  skill_type :: string

definition CONFIG_Contrato_skills :: "(string \<times> skill_config) list" where
  "CONFIG_Contrato_skills =
     [(''atletismo'', \<lparr>label = ''CONTRATO.SKILLS.ATLETISMO'', skill_type = ''physical''\<rparr>),
      (''briga'', \<lparr>label = ''CONTRATO.SKILLS.BRIGA'', skill_type = ''physical''\<rparr>),
      (''conducao'', \<lparr>label = ''CONTRATO.SKILLS.CONDUTCAO'', skill_type = ''physical''\<rparr>),
      (''furtividade'', \<lparr>label = ''CONTRATO.SKILLS.FURTIVIDADE'', skill_type = ''physical''\<rparr>),
      (''sobrevivencia'', \<lparr>label = ''CONTRATO.SKILLS.SOBREVIVENCIA'', skill_type = ''physical''\<rparr>),
      (''computadores'', \<lparr>label = ''CONTRATO.SKILLS.COMPUTADORES'', skill_type = ''mental''\<rparr>),
      (''investigacao'', \<lparr>label = ''CONTRATO.SKILLS.INVESTIGACAO'', skill_type = ''mental''\<rparr>),
      (''medicina'', \<lparr>label = ''CONTRATO.SKILLS.MEDICINA'', skill_type = ''mental''\<rparr>),
      (''ocultismo'', \<lparr>label = ''CONTRATO.SKILLS.OCULTISMO'', skill_type = ''mental''\<rparr>),
      (''ciencias'', \<lparr>label = ''CONTRATO.SKILLS.CIENCIAS'', skill_type = ''mental''\<rparr>),
      (''empatia'', \<lparr>label = ''CONTRATO.SKILLS.EMPATIA'', skill_type = ''social''\<rparr>),
      (''expressao'', \<lparr>label = ''CONTRATO.SKILLS.EXPRESSAO'', skill_type = ''social''\<rparr>),
      (''intimidacao'', \<lparr>label = ''CONTRATO.SKILLS.INTIMIDACAO'', skill_type = ''social''\<rparr>),
      (''persuasao'', \<lparr>label = ''CONTRATO.SKILLS.PERSUASAO'', skill_type = ''social''\<rparr>),
      (''subterfugio'', \<lparr>label = ''CONTRATO.SKILLS.SUBTERFUGIO'', skill_type = ''social''\<rparr>),
      (''armasBrancas'', \<lparr>label = ''CONTRATO.SKILLS.ARMAS_BRANCAS'', skill_type = ''combat''\<rparr>),
      (''armasDeFogo'', \<lparr>label = ''CONTRATO.SKILLS.ARMAS_DE_FOGO'', skill_type = ''combat''\<rparr>),
      (''defesa'', \<lparr>label = ''CONTRATO.SKILLS.DEFESA'', skill_type = ''combat''\<rparr>)]"

text \<open>
  The keys that a plain object inherits from \<open>Object.prototype\<close>. Each of them yields a
  function, or the prototype itself for \<open>__proto__\<close>: a truthy value that has no
  \<open>label\<close> and that \<open>Number\<close> turns into \<open>NaN\<close>.
\<close>

definition Object_prototype_keys :: "string list" where
  "Object_prototype_keys =
     [''constructor'', ''__defineGetter__'', ''__defineSetter__'', ''hasOwnProperty'',
      ''__lookupGetter__'', ''__lookupSetter__'', ''isPrototypeOf'',
      ''propertyIsEnumerable'', ''toString'', ''valueOf'', ''__proto__'',
      ''toLocaleString'']"

text \<open>
  \<open>CONFIG.Contrato.skills[skillKey]\<close>: the configuration of a skill for an own key, an
  inherited value for a key of \<open>Object.prototype\<close>, and \<open>undefined\<close> otherwise.
\<close>

datatype property = Missing | Inherited | Own skill_config

definition skills_property :: "string \<Rightarrow> property" where
  "skills_property skillKey =
     (case map_of CONFIG_Contrato_skills skillKey of
        Some skillConfig \<Rightarrow> Own skillConfig
      | None \<Rightarrow> if skillKey \<in> set Object_prototype_keys then Inherited else Missing)"

text \<open>
  \<open>skillConfig.label\<close> as a template string prints it: the label of a configured skill,
  and \<open>undefined\<close> for an inherited value. (Reading the label of a missing value raises;
  the callers test for it first.)
\<close>

fun skillLabel :: "property \<Rightarrow> string" where
  "skillLabel (Own skillConfig) = label skillConfig"
| "skillLabel Inherited = ''undefined''"
| "skillLabel Missing = ''undefined''"

text \<open>
  Modelled from the spec: \<open>this.update\<close> belongs to the host. The call of the umbral
  branch writes the two attributes; as the comment of \<open>prepareDerivedData\<close> and the
  specification say, the host then runs the deriver on the updated actor.
\<close>

definition actor_update :: "sc_module option \<Rightarrow> int \<Rightarrow> int \<Rightarrow> int \<Rightarrow> actor \<Rightarrow> actor \<times> effect list" where
  "actor_update scModule now newBestialidade newHumanidade a =
     prepareDerivedData scModule now
       (a\<lparr>attributes := (attributes a)\<lparr>bestialidade := Some newBestialidade,
                                          humanidade := Some newHumanidade\<rparr>\<rparr>)"

text \<open>
  How a call can leave the model. \<open>TypeError\<close>: the label of a missing skill is read
  when the chat message is built (the private method is only reached from \<open>rollSkill\<close>,
  after the lookup of the skill succeeded). \<open>NotANumber\<close>: a field that the code uses as
  a number is absent or not a number, so that JavaScript would go on with \<open>NaN\<close> or a
  coerced value, which the integers of this model do not have. \<open>NaNTotal\<close>: the skill
  value is the inherited value of a key of \<open>Object.prototype\<close>, so that the roll is
  resolved with the total \<open>NaN\<close>; the constructor carries the actor after the pool is
  decremented and the umbral update is made, and what the update did outside it, and
  leaves out the chat message and the history entry, which hold \<open>NaN\<close>.
\<close>

datatype failure = TypeError | NotANumber | NaNTotal actor "effect list"

text \<open>
  \<open>#executeSkillRoll\<close>. \<open>d6\<close> and \<open>d12\<close> are the totals of the two \<open>Roll\<close> objects, drawn
  by the host. The result is the returned total, the actor after the call and what the
  call did outside it.
\<close>

definition executeSkillRoll ::
  "sc_module option \<Rightarrow> int \<Rightarrow> int \<Rightarrow> int \<Rightarrow> string \<Rightarrow> bool \<Rightarrow> int \<Rightarrow> actor
     \<Rightarrow> failure + (int \<times> actor \<times> effect list)" where
  "executeSkillRoll scModule now d6 d12 skillKey umbral situationalMod a =
     (case (humanidade (attributes a), bestialidade (attributes a), current (reservaDados a)) of
        (Some human, Some bestia, JNumber cur) \<Rightarrow>
          let skillIsNaN = (skills a skillKey = None \<and> skillKey \<in> set Object_prototype_keys);
              skillVal = (case skills a skillKey of None \<Rightarrow> 0 | Some v \<Rightarrow> v);
              a1 = a\<lparr>reservaDados := (reservaDados a)\<lparr>current := JNumber (max 0 (cur - 1))\<rparr>\<rparr>;
              d6Value = (if \<not> umbral then \<lceil>real_of_int d6 / 2\<rceil> else d6);
              upd = (if \<not> umbral then (a1, [])
                     else let newBestialidade = min 11 (bestia + 1);
                              newHumanidade = max 0 (12 - newBestialidade)
                          in actor_update scModule now newBestialidade newHumanidade a1);
              a2 = fst upd;
              total = d12 + skillVal + d6Value + situationalMod
          in (if skillIsNaN then Inl (NaNTotal a2 (snd upd))
              else if skills_property skillKey = Missing then Inl TypeError
              else
                  Inr (total,
                       a2\<lparr>flags := (flags a2)\<lparr>history := history (flags a2)
                            @ [RollEntry now skillKey total human bestia
                                 (mortalidade (attributes a2))]\<rparr>\<rparr>,
                       snd upd
                       @ [ChatCreate \<lparr>msg_label = skillLabel (skills_property skillKey),
                                      msg_d12 = d12,
                                      msg_skill = skillVal, msg_umbral = umbral,
                                      msg_d6Value = d6Value,
                                      msg_situationalMod = situationalMod,
                                      msg_total = total\<rparr>]))
      | _ \<Rightarrow> Inl NotANumber)"

text \<open>
  What the player does with the dialog of \<open>rollSkill\<close>: close it, or press one of the two
  buttons with a situational modifier selected.
\<close>

datatype choice = Dismissed | Sagrado int | Umbral int

text \<open>
  \<open>rollSkill\<close>. The guard \<open>!skillConfig\<close> holds for a missing value only. The first
  component of the result is the value the promise resolves to:
  \<open>None\<close> when the method returns nothing, or when the dialog is closed and the promise
  stays pending.
\<close>

definition rollSkill ::
  "sc_module option \<Rightarrow> int \<Rightarrow> int \<Rightarrow> int \<Rightarrow> choice \<Rightarrow> string \<Rightarrow> actor
     \<Rightarrow> failure + (int option \<times> actor \<times> effect list)" where
  "rollSkill scModule now d6 d12 ch skillKey a =
     (if skills_property skillKey = Missing then
        Inr (None, a, [NotifyWarn (UnknownSkill skillKey)])
      else
          (case current (reservaDados a) of
             JNumber cur \<Rightarrow>
               if cur \<le> 0 then
                 Inr (None, a, [NotifyWarn (NoResourceAvailable
                                              (skillLabel (skills_property skillKey)))])
               else
                 (case ch of
                    Dismissed \<Rightarrow> Inr (None, a, [])
                  | Sagrado modVal \<Rightarrow>
                      map_sum id (\<lambda>(t, r). (Some t, r))
                        (executeSkillRoll scModule now d6 d12 skillKey False modVal a)
                  | Umbral modVal \<Rightarrow>
                      map_sum id (\<lambda>(t, r). (Some t, r))
                        (executeSkillRoll scModule now d6 d12 skillKey True modVal a))
           | _ \<Rightarrow> Inl NotANumber))"

section \<open>Notions of the specification\<close>

text \<open>An actor as first created: no attribute, no skill value, no pool, no flag.\<close>

definition blank_actor :: actor where
  "blank_actor =
     \<lparr>attributes = \<lparr>humanidade = None, bestialidade = None, mortalidade = None\<rparr>,
      skills = Map.empty,
      reservaDados = \<lparr>current = JUndefined, maximum = None\<rparr>,
      mortalidadeData = \<lparr>penalty = None, hunt = None\<rparr>,
      flags = \<lparr>lastMortalityLevel = None, history = []\<rparr>\<rparr>"

text \<open>
  The table of the specification: penalty tier and hunt frequency for a corruption value.
  The table starts at 0 and says nothing of a negative value.
\<close>

definition corruption_table :: "int \<Rightarrow> (int \<times> string) option" where
  "corruption_table c =
     (if 0 \<le> c \<and> c \<le> 2 then Some (0, ''none'')
      else if 3 \<le> c \<and> c \<le> 5 then Some (1, ''weekly'')
      else if 6 \<le> c \<and> c \<le> 8 then Some (2, ''twice-weekly'')
      else if 9 \<le> c \<and> c \<le> 11 then Some (3, ''daily'')
      else if 12 \<le> c then Some (4, ''constant'')
      else None)"

text \<open>The dice pool holds a number between 0 and its maximum.\<close>

definition pool_within_bounds :: "actor \<Rightarrow> bool" where
  "pool_within_bounds a =
     (case (current (reservaDados a), maximum (reservaDados a)) of
        (JNumber c, Some mx) \<Rightarrow> 0 \<le> c \<and> c \<le> mx
      | _ \<Rightarrow> False)"

text \<open>The pool of the second actor is the pool of the first minus 1, floored at 0.\<close>

definition pool_decremented :: "actor \<Rightarrow> actor \<Rightarrow> bool" where
  "pool_decremented a a' =
     (case (current (reservaDados a), current (reservaDados a')) of
        (JNumber c, JNumber c') \<Rightarrow> c' = max 0 (c - 1)
      | _ \<Rightarrow> False)"





text \<open>
  The start of the scenarios of the specification: humanity 6, bestiality 6, rating 3 in
  the skill \<open>briga\<close>, a pool of 1 out of 7, corruption 0 already announced.
\<close>

definition scenario_actor :: actor where
  "scenario_actor =
     \<lparr>attributes = \<lparr>humanidade = Some 6, bestialidade = Some 6, mortalidade = Some 0\<rparr>,
      skills = [''briga'' \<mapsto> 3],
      reservaDados = \<lparr>current = JNumber 1, maximum = Some 7\<rparr>,
      mortalidadeData = \<lparr>penalty = Some 0, hunt = Some ''none''\<rparr>,
      flags = \<lparr>lastMortalityLevel = Some ''none'',
               history = [MortalidadeEntry 0 ''none'' 0]\<rparr>\<rparr>"

section \<open>Notions of the proofs\<close>

text \<open>
  The two computations of \<open>prepareDerivedData\<close> that the proofs name: the chain of
  comparisons on the corruption value, and the attributes after the call.
\<close>

definition mortality_tier :: "int \<Rightarrow> int \<times> string" where
  "mortality_tier mort =
     (if mort \<ge> 3 \<and> mort \<le> 5 then (1, ''weekly'')
      else if mort \<ge> 6 \<and> mort \<le> 8 then (2, ''twice-weekly'')
      else if mort \<ge> 9 \<and> mort \<le> 11 then (3, ''daily'')
      else if mort \<ge> 12 then (4, ''constant'')
      else (0, ''none''))"

definition derived_attributes :: "attributes \<Rightarrow> attributes" where
  "derived_attributes x =
     (let h = (case humanidade x of None \<Rightarrow> 6 | Some v \<Rightarrow> v);
          b0 = (case bestialidade x of None \<Rightarrow> 6 | Some v \<Rightarrow> v);
          mort = (case mortalidade x of None \<Rightarrow> 0 | Some v \<Rightarrow> v)
      in \<lparr>humanidade = Some h,
          bestialidade = Some (if h + b0 \<noteq> 12 then max 0 (12 - h) else b0),
          mortalidade = Some mort\<rparr>)"

section \<open>The deriver, field by field\<close>

lemma pDD_attributes:
  "attributes (fst (prepareDerivedData sc now a)) = derived_attributes (attributes a)"
  by (simp add: prepareDerivedData_def derived_attributes_def Let_def)

lemma pDD_skills: "skills (fst (prepareDerivedData sc now a)) = skills a"
  by (simp add: prepareDerivedData_def Let_def)

lemma pDD_more: "actor.more (fst (prepareDerivedData sc now a)) = actor.more a"
  by (simp add: prepareDerivedData_def Let_def)

lemma pDD_reservaDados:
  "bestialidade (derived_attributes (attributes a)) = Some b \<Longrightarrow>
   reservaDados (fst (prepareDerivedData sc now a)) =
     \<lparr>current = JNumber (case current (reservaDados a) of
                           JNumber c \<Rightarrow> if c > b + 1 then b + 1 else c
                         | _ \<Rightarrow> b + 1),
      maximum = Some (b + 1)\<rparr>"
  by (auto simp add: prepareDerivedData_def derived_attributes_def Let_def)

lemma pDD_mortalidadeData:
  "mortalidade (derived_attributes (attributes a)) = Some m \<Longrightarrow>
   mortalidadeData (fst (prepareDerivedData sc now a)) =
     \<lparr>penalty = Some (fst (mortality_tier m)), hunt = Some (snd (mortality_tier m))\<rparr>"
  by (auto simp add: prepareDerivedData_def derived_attributes_def mortality_tier_def Let_def)

lemma pDD_flags:
  "mortalidade (derived_attributes (attributes a)) = Some m \<Longrightarrow>
   flags (fst (prepareDerivedData sc now a)) =
     (if lastMortalityLevel (flags a) \<noteq> Some (snd (mortality_tier m))
      then \<lparr>lastMortalityLevel = Some (snd (mortality_tier m)),
            history = history (flags a) @ [MortalidadeEntry now (snd (mortality_tier m)) m]\<rparr>
      else flags a)"
  by (auto simp add: prepareDerivedData_def derived_attributes_def mortality_tier_def Let_def)

lemma pDD_effects:
  "mortalidade (derived_attributes (attributes a)) = Some m \<Longrightarrow>
   snd (prepareDerivedData sc now a) =
     (if lastMortalityLevel (flags a) \<noteq> Some (snd (mortality_tier m))
         \<and> snd (mortality_tier m) \<noteq> ''none''
      then scheduleHuntEvent sc (snd (mortality_tier m)) else [])"
  by (auto simp add: prepareDerivedData_def derived_attributes_def mortality_tier_def Let_def)

lemma derived_attributes_idem: "derived_attributes (derived_attributes x) = derived_attributes x"
  by (simp add: derived_attributes_def Let_def)

lemma derived_attributes_Some:
  "\<exists>h b m. derived_attributes x = \<lparr>humanidade = Some h, bestialidade = Some b, mortalidade = Some m\<rparr>"
  by (simp add: derived_attributes_def Let_def)


lemma sum_kept_in_range:
  assumes "humanidade (attributes a) = Some h" "1 \<le> h" "h \<le> 12"
  shows "\<exists>b. attributes (fst (prepareDerivedData sc now a))
             = \<lparr>humanidade = Some h, bestialidade = Some b,
                mortalidade = Some (case mortalidade (attributes a) of None \<Rightarrow> 0 | Some v \<Rightarrow> v)\<rparr>
           \<and> h + b = 12 \<and> 0 \<le> b \<and> b \<le> 11"
  using assms by (auto simp add: pDD_attributes derived_attributes_def Let_def)




section \<open>The roll, step by step\<close>

lemma own_key_not_inherited:
  "map_of CONFIG_Contrato_skills skillKey = Some cfg \<Longrightarrow>
   skillKey \<notin> set Object_prototype_keys"
  by (auto simp add: CONFIG_Contrato_skills_def Object_prototype_keys_def split: if_splits)

lemma skills_property_own:
  "map_of CONFIG_Contrato_skills skillKey = Some cfg \<Longrightarrow> skills_property skillKey = Own cfg"
  by (simp add: skills_property_def)

lemma executeSkillRoll_result:
  assumes "humanidade (attributes a) = Some h" and "bestialidade (attributes a) = Some b"
    and "current (reservaDados a) = JNumber c"
    and "map_of CONFIG_Contrato_skills skillKey = Some cfg"
  shows "executeSkillRoll sc now d6 d12 skillKey umbral m a =
     (let skillVal = (case skills a skillKey of None \<Rightarrow> 0 | Some v \<Rightarrow> v);
          a1 = a\<lparr>reservaDados := (reservaDados a)\<lparr>current := JNumber (max 0 (c - 1))\<rparr>\<rparr>;
          d6Value = (if \<not> umbral then \<lceil>real_of_int d6 / 2\<rceil> else d6);
          upd = (if \<not> umbral then (a1, [])
                 else actor_update sc now (min 11 (b + 1)) (max 0 (12 - min 11 (b + 1))) a1);
          total = d12 + skillVal + d6Value + m
      in Inr (total,
              (fst upd)\<lparr>flags := (flags (fst upd))\<lparr>history := history (flags (fst upd))
                   @ [RollEntry now skillKey total h b (mortalidade (attributes (fst upd)))]\<rparr>\<rparr>,
              snd upd @ [ChatCreate \<lparr>msg_label = label cfg, msg_d12 = d12,
                                     msg_skill = skillVal, msg_umbral = umbral,
                                     msg_d6Value = d6Value, msg_situationalMod = m,
                                     msg_total = total\<rparr>]))"
  by (simp add: executeSkillRoll_def assms(1-3) Let_def
        own_key_not_inherited [OF assms(4)] skills_property_own [OF assms(4)])

lemma balanced_attributes:
  "nh + nb = 12 \<Longrightarrow>
   derived_attributes (x\<lparr>bestialidade := Some nb, humanidade := Some nh\<rparr>)
   = \<lparr>humanidade = Some nh, bestialidade = Some nb,
      mortalidade = Some (case mortalidade x of None \<Rightarrow> 0 | Some v \<Rightarrow> v)\<rparr>"
  by (simp add: derived_attributes_def Let_def)

lemma actor_update_attributes:
  assumes "nh + nb = 12"
  shows "attributes (fst (actor_update sc now nb nh a))
   = \<lparr>humanidade = Some nh, bestialidade = Some nb,
      mortalidade = Some (case mortalidade (attributes a) of None \<Rightarrow> 0 | Some v \<Rightarrow> v)\<rparr>"
  unfolding actor_update_def pDD_attributes
  using balanced_attributes [OF assms, where x = "attributes a"] by simp

lemma actor_update_reservaDados:
  assumes "nh + nb = 12"
  shows "reservaDados (fst (actor_update sc now nb nh a))
   = \<lparr>current = JNumber (case current (reservaDados a) of
                           JNumber c \<Rightarrow> if c > nb + 1 then nb + 1 else c
                         | _ \<Rightarrow> nb + 1),
      maximum = Some (nb + 1)\<rparr>"
proof -
  have "bestialidade (derived_attributes (attributes
          (a\<lparr>attributes := (attributes a)\<lparr>bestialidade := Some nb,
                humanidade := Some nh\<rparr>\<rparr>))) = Some nb"
    using balanced_attributes [OF assms, where x = "attributes a"] by simp
  from pDD_reservaDados [OF this] show ?thesis
    by (simp add: actor_update_def)
qed


lemma pDD_no_notification: "NotifyWarn n \<notin> set (snd (prepareDerivedData sc now a))"
  by (simp add: prepareDerivedData_def Let_def scheduleHuntEvent_def
        split: option.splits)

lemma executeSkillRoll_no_notification:
  assumes "executeSkillRoll sc now d6 d12 skillKey umbral m a = Inr (t, a', e)"
  shows "NotifyWarn n \<notin> set e"
proof -
  have upd: "NotifyWarn n \<notin> set (snd (actor_update sc now nb nh x))" for nb nh x
    by (simp add: actor_update_def pDD_no_notification)
  from assms show ?thesis
    by (auto simp add: executeSkillRoll_def Let_def upd
          split: option.splits jsval.splits if_splits)
qed

section \<open>The balance of humanity and bestiality\<close>

text \<open>
  C1. After the deriver, humanity and bestiality sum to 12 and bestiality lies between 0
  and 11. The code keeps this only for a humanity between 1 and 12
  (\<open>sum_kept_in_range\<close>). The theorem evaluates the deriver at two records outside
  that range: humanity 20 with bestiality 0, where the sum stays 20, and humanity 0 with
  bestiality 12, where bestiality stays 12.
\<close>

theorem deriver_sum_not_enforced:
  "attributes (fst (prepareDerivedData None 0 (blank_actor\<lparr>attributes :=
       \<lparr>humanidade = Some 20, bestialidade = Some 0, mortalidade = Some 0\<rparr>\<rparr>)))
     = \<lparr>humanidade = Some 20, bestialidade = Some 0, mortalidade = Some 0\<rparr>
   \<and> attributes (fst (prepareDerivedData None 0 (blank_actor\<lparr>attributes :=
       \<lparr>humanidade = Some 0, bestialidade = Some 12, mortalidade = Some 0\<rparr>\<rparr>)))
     = \<lparr>humanidade = Some 0, bestialidade = Some 12, mortalidade = Some 0\<rparr>"
  by (simp add: pDD_attributes derived_attributes_def blank_actor_def)

section \<open>The dice pool\<close>

text \<open>
  C2, as stated: after the deriver the pool holds a number between 0 and its maximum,
  whatever it held before. A negative number is left as it is: from a pool of -5 the
  deriver returns a pool of -5.
\<close>

theorem pool_counterexample:
  "\<not> pool_within_bounds (fst (prepareDerivedData None 0
        (blank_actor\<lparr>reservaDados := \<lparr>current = JNumber (- 5), maximum = None\<rparr>\<rparr>)))"
  by (simp add: pool_within_bounds_def prepareDerivedData_def Let_def blank_actor_def)

text \<open>
  C2, amended. After the deriver the maximum of the pool is bestiality + 1 and the pool
  holds a number that is at most the maximum. A number that was at most the maximum is
  kept as it is, never raised, also when it is negative; a number above the maximum and
  a value that is not a number are replaced by the maximum. So the pool lies between 0
  and its maximum whenever bestiality is at least 0 and the pool did not hold a negative
  number.
\<close>

theorem pool_after_deriver:
  assumes "bestialidade (attributes (fst (prepareDerivedData sc now a))) = Some b"
  shows "maximum (reservaDados (fst (prepareDerivedData sc now a))) = Some (b + 1)
       \<and> (\<exists>c'. current (reservaDados (fst (prepareDerivedData sc now a))) = JNumber c'
                \<and> c' \<le> b + 1)
       \<and> (\<forall>c. current (reservaDados a) = JNumber c \<and> c \<le> b + 1 \<longrightarrow>
                current (reservaDados (fst (prepareDerivedData sc now a))) = JNumber c)
       \<and> (\<forall>c. current (reservaDados a) = JNumber c \<and> b + 1 < c \<longrightarrow>
                current (reservaDados (fst (prepareDerivedData sc now a))) = JNumber (b + 1))
       \<and> ((\<forall>c. current (reservaDados a) \<noteq> JNumber c) \<longrightarrow>
                current (reservaDados (fst (prepareDerivedData sc now a))) = JNumber (b + 1))
       \<and> (0 \<le> b \<and> (\<forall>c. current (reservaDados a) = JNumber c \<longrightarrow> 0 \<le> c) \<longrightarrow>
                pool_within_bounds (fst (prepareDerivedData sc now a)))"
proof -
  have b: "bestialidade (derived_attributes (attributes a)) = Some b"
    using assms by (simp add: pDD_attributes)
  show ?thesis
    by (cases "current (reservaDados a)")
       (simp_all add: pDD_reservaDados [OF b] pool_within_bounds_def)
qed

theorem pool_after_deriver_witness:
  "bestialidade (attributes (fst (prepareDerivedData None 0
       (scenario_actor\<lparr>reservaDados := \<lparr>current = JNumber 9, maximum = Some 7\<rparr>\<rparr>)))) = Some 6
   \<and> reservaDados (fst (prepareDerivedData None 0
       (scenario_actor\<lparr>reservaDados := \<lparr>current = JNumber 9, maximum = Some 7\<rparr>\<rparr>)))
       = \<lparr>current = JNumber 7, maximum = Some 7\<rparr>
   \<and> pool_within_bounds (fst (prepareDerivedData None 0
       (scenario_actor\<lparr>reservaDados := \<lparr>current = JNumber 9, maximum = Some 7\<rparr>\<rparr>)))"
  using pool_after_deriver [of None 0
      "scenario_actor\<lparr>reservaDados := \<lparr>current = JNumber 9, maximum = Some 7\<rparr>\<rparr>" 6]
  by (simp add: pDD_attributes derived_attributes_def scenario_actor_def
        reservaDados.equality)

section \<open>Idempotence of the deriver\<close>

text \<open>
  C7. Running the deriver a second time, on the actor that a first run returned, returns
  the same actor (attributes, pool, corruption state, flags and history) and does
  nothing outside it: no history entry is added and no reminder is scheduled.
\<close>

theorem deriver_idempotent:
  "prepareDerivedData sc' now' (fst (prepareDerivedData sc now a))
     = (fst (prepareDerivedData sc now a), [])"
proof -
  define a' where "a' = fst (prepareDerivedData sc now a)"
  obtain h b m where d: "derived_attributes (attributes a)
      = \<lparr>humanidade = Some h, bestialidade = Some b, mortalidade = Some m\<rparr>"
    using derived_attributes_Some by blast
  have at: "attributes a' = derived_attributes (attributes a)"
    by (simp add: a'_def pDD_attributes)
  have dd: "derived_attributes (attributes a') = derived_attributes (attributes a)"
    by (simp add: at derived_attributes_idem)
  have b: "bestialidade (derived_attributes (attributes a)) = Some b"
    and m: "mortalidade (derived_attributes (attributes a)) = Some m"
    using d by simp_all
  have b': "bestialidade (derived_attributes (attributes a')) = Some b"
    and m': "mortalidade (derived_attributes (attributes a')) = Some m"
    using b m dd by simp_all
  have lvl: "lastMortalityLevel (flags a') = Some (snd (mortality_tier m))"
    by (simp add: a'_def pDD_flags [OF m])
  have f1: "attributes (fst (prepareDerivedData sc' now' a')) = attributes a'"
    by (simp add: pDD_attributes at derived_attributes_idem)
  have f2: "skills (fst (prepareDerivedData sc' now' a')) = skills a'"
    by (simp add: pDD_skills)
  have f3: "reservaDados (fst (prepareDerivedData sc' now' a')) = reservaDados a'"
  proof -
    have "\<exists>c. reservaDados a' = \<lparr>current = JNumber c, maximum = Some (b + 1)\<rparr> \<and> c \<le> b + 1"
      unfolding a'_def by (simp add: pDD_reservaDados [OF b] split: jsval.splits)
    then obtain c where r: "reservaDados a' = \<lparr>current = JNumber c, maximum = Some (b + 1)\<rparr>"
      and c: "c \<le> b + 1" by blast
    show ?thesis using c by (simp add: pDD_reservaDados [OF b'] r)
  qed
  have f4: "mortalidadeData (fst (prepareDerivedData sc' now' a')) = mortalidadeData a'"
  proof -
    have "mortalidadeData a' = \<lparr>penalty = Some (fst (mortality_tier m)),
                                  hunt = Some (snd (mortality_tier m))\<rparr>"
      unfolding a'_def by (rule pDD_mortalidadeData [OF m])
    then show ?thesis by (simp add: pDD_mortalidadeData [OF m'])
  qed
  have f5: "flags (fst (prepareDerivedData sc' now' a')) = flags a'"
    by (simp add: pDD_flags [OF m'] lvl)
  have f6: "actor.more (fst (prepareDerivedData sc' now' a')) = actor.more a'"
    by (simp add: pDD_more)
  have st: "fst (prepareDerivedData sc' now' a') = a'"
    by (rule actor.equality) (simp_all add: f1 f2 f3 f4 f5 f6)
  have ef: "snd (prepareDerivedData sc' now' a') = []"
    by (simp add: pDD_effects [OF m'] lvl)
  show ?thesis
    unfolding a'_def [symmetric] using st ef by (simp add: prod_eq_iff)
qed

section \<open>The history of threshold crossings\<close>



section \<open>The corruption tiers\<close>

text \<open>
  C3. For every corruption value that the table of the specification covers (an absent
  value counts as 0), the deriver stores the penalty and the hunt frequency of the
  table. In particular the values 2, 3, 5, 6, 8, 9, 11 and 12 give 0/none, 1/weekly,
  1/weekly, 2/twice-weekly, 2/twice-weekly, 3/daily, 3/daily and 4/constant.
\<close>

theorem corruption_tiers:
  assumes "m = (case mortalidade (attributes a) of None \<Rightarrow> 0 | Some v \<Rightarrow> v)"
  shows "(\<forall>p f. corruption_table m = Some (p, f) \<longrightarrow>
            mortalidadeData (fst (prepareDerivedData sc now a))
              = \<lparr>penalty = Some p, hunt = Some f\<rparr>)
       \<and> (\<forall>p f. (m, p, f) \<in> set [(2, 0, ''none''), (3, 1, ''weekly''), (5, 1, ''weekly''),
                     (6, 2, ''twice-weekly''), (8, 2, ''twice-weekly''), (9, 3, ''daily''),
                     (11, 3, ''daily''), (12, 4, ''constant'')] \<longrightarrow>
            mortalidadeData (fst (prepareDerivedData sc now a))
              = \<lparr>penalty = Some p, hunt = Some f\<rparr>)"
proof -
  have m: "mortalidade (derived_attributes (attributes a)) = Some m"
    using assms by (simp add: derived_attributes_def Let_def)
  show ?thesis
    by (auto simp add: pDD_mortalidadeData [OF m] mortality_tier_def corruption_table_def
          split: if_splits)
qed

theorem corruption_tiers_witness:
  "(12::int) = (case mortalidade (attributes (scenario_actor\<lparr>attributes :=
        \<lparr>humanidade = Some 6, bestialidade = Some 6, mortalidade = Some 12\<rparr>\<rparr>))
      of None \<Rightarrow> 0 | Some v \<Rightarrow> v)
   \<and> corruption_table 12 = Some (4, ''constant'')
   \<and> mortalidadeData (fst (prepareDerivedData None 0 (scenario_actor\<lparr>attributes :=
        \<lparr>humanidade = Some 6, bestialidade = Some 6, mortalidade = Some 12\<rparr>\<rparr>)))
       = \<lparr>penalty = Some 4, hunt = Some ''constant''\<rparr>"
  using corruption_tiers [of 12 "scenario_actor\<lparr>attributes :=
        \<lparr>humanidade = Some 6, bestialidade = Some 6, mortalidade = Some 12\<rparr>\<rparr>" None 0]
  by (simp add: corruption_table_def)

text \<open>
  C10. Every corruption (mortalidade) value strictly below 3, the negative ones included,
  gives penalty 0 and hunt frequency \<open>'none'\<close>.
\<close>

theorem low_mortalidade_no_penalty:
  assumes "mortalidade (attributes a) = Some m" and "m < 3"
  shows "mortalidadeData (fst (prepareDerivedData scModule now a))
           = \<lparr>penalty = Some 0, hunt = Some ''none''\<rparr>"
  using assms by (simp add: prepareDerivedData_def Let_def)

theorem low_mortalidade_no_penalty_witness:
  "mortalidade (attributes (blank_actor\<lparr>attributes :=
       \<lparr>humanidade = Some 6, bestialidade = Some 6, mortalidade = Some (- 4)\<rparr>\<rparr>)) = Some (- 4)
   \<and> (- 4 :: int) < 3
   \<and> mortalidadeData (fst (prepareDerivedData None 0 (blank_actor\<lparr>attributes :=
       \<lparr>humanidade = Some 6, bestialidade = Some 6, mortalidade = Some (- 4)\<rparr>\<rparr>)))
       = \<lparr>penalty = Some 0, hunt = Some ''none''\<rparr>"
  using low_mortalidade_no_penalty [of "blank_actor\<lparr>attributes :=
       \<lparr>humanidade = Some 6, bestialidade = Some 6, mortalidade = Some (- 4)\<rparr>\<rparr>" "- 4" None 0]
  by simp

section \<open>The resolution of a roll\<close>

text \<open>
  C4. A roll resolved in sacred mode, on an actor whose attributes and pool are numbers,
  with skill rating \<open>r\<close>, dice \<open>d6\<close> and \<open>d12\<close> and situational modifier \<open>m\<close>: the
  pool goes from \<open>c\<close> to \<open>max 0 (c - 1)\<close>, the attributes are unchanged, the die spent
  counts for the ceiling of \<open>d6 / 2\<close>, which lies between 1 and 3 for a die between 1
  and 6, and the total returned is \<open>d12 + r + ceil (d6 / 2) + m\<close>.
\<close>

theorem sacred_roll:
  assumes "humanidade (attributes a) = Some h" and "bestialidade (attributes a) = Some b"
    and "current (reservaDados a) = JNumber c"
    and "map_of CONFIG_Contrato_skills skillKey = Some cfg"
    and "r = (case skills a skillKey of None \<Rightarrow> 0 | Some v \<Rightarrow> v)"
  shows "\<exists>a' e. executeSkillRoll sc now d6 d12 skillKey False m a
                  = Inr (d12 + r + \<lceil>real_of_int d6 / 2\<rceil> + m, a', e)
          \<and> current (reservaDados a') = JNumber (max 0 (c - 1))
          \<and> attributes a' = attributes a
          \<and> e = [ChatCreate \<lparr>msg_label = label cfg, msg_d12 = d12, msg_skill = r,
                               msg_umbral = False, msg_d6Value = \<lceil>real_of_int d6 / 2\<rceil>,
                               msg_situationalMod = m,
                               msg_total = d12 + r + \<lceil>real_of_int d6 / 2\<rceil> + m\<rparr>]
          \<and> (1 \<le> d6 \<and> d6 \<le> 6 \<longrightarrow>
                1 \<le> \<lceil>real_of_int d6 / 2\<rceil> \<and> \<lceil>real_of_int d6 / 2\<rceil> \<le> 3)"
proof -
  have rng: "1 \<le> d6 \<and> d6 \<le> 6 \<longrightarrow>
               1 \<le> \<lceil>real_of_int d6 / 2\<rceil> \<and> \<lceil>real_of_int d6 / 2\<rceil> \<le> 3"
    by linarith
  show ?thesis
    using rng
    by (simp add: executeSkillRoll_result [OF assms(1-4)] assms(3,5) Let_def)
qed

theorem sacred_roll_witness:
  "\<exists>a' e. executeSkillRoll None 1000 5 7 ''briga'' False 0 scenario_actor = Inr (13, a', e)
      \<and> current (reservaDados a') = JNumber 0
      \<and> attributes a' = \<lparr>humanidade = Some 6, bestialidade = Some 6, mortalidade = Some 0\<rparr>
      \<and> e = [ChatCreate \<lparr>msg_label = ''CONTRATO.SKILLS.BRIGA'', msg_d12 = 7, msg_skill = 3,
                           msg_umbral = False, msg_d6Value = 3,
                           msg_situationalMod = 0, msg_total = 13\<rparr>]"
proof -
  have 1: "humanidade (attributes scenario_actor) = Some 6"
    and 2: "bestialidade (attributes scenario_actor) = Some 6"
    and 3: "current (reservaDados scenario_actor) = JNumber 1"
    and 5: "3 = (case skills scenario_actor ''briga'' of None \<Rightarrow> 0 | Some v \<Rightarrow> v)"
    and at: "attributes scenario_actor
               = \<lparr>humanidade = Some 6, bestialidade = Some 6, mortalidade = Some 0\<rparr>"
    by (simp_all add: scenario_actor_def)
  have 4: "map_of CONFIG_Contrato_skills ''briga''
             = Some \<lparr>label = ''CONTRATO.SKILLS.BRIGA'', skill_type = ''physical''\<rparr>"
    by (simp add: CONFIG_Contrato_skills_def)
  from sacred_roll [OF 1 2 3 4 5, of None 1000 5 7 0] show ?thesis
    by (simp add: at)
qed

text \<open>
  C5, as stated: every roll resolved in umbral mode takes 1 from the pool, floored at 0.
  From a humanity of -3 the deriver gives bestiality 15 and a pool of 16 out of 16. The
  umbral roll on that actor sets bestiality to 11, and the deriver pass that follows the
  update clamps the pool to the new maximum: the pool is 12 afterwards, not 15.
\<close>

theorem umbral_pool_counterexample:
  "prepareDerivedData None 0
     (blank_actor\<lparr>attributes :=
        \<lparr>humanidade = Some (- 3), bestialidade = None, mortalidade = None\<rparr>\<rparr>)
     = (blank_actor\<lparr>
          attributes := \<lparr>humanidade = Some (- 3), bestialidade = Some 15, mortalidade = Some 0\<rparr>,
          reservaDados := \<lparr>current = JNumber 16, maximum = Some 16\<rparr>,
          mortalidadeData := \<lparr>penalty = Some 0, hunt = Some ''none''\<rparr>,
          flags := \<lparr>lastMortalityLevel = Some ''none'',
                    history = [MortalidadeEntry 0 ''none'' 0]\<rparr>\<rparr>, [])
   \<and> executeSkillRoll None 1000 4 2 ''briga'' True 0
       (blank_actor\<lparr>
          attributes := \<lparr>humanidade = Some (- 3), bestialidade = Some 15, mortalidade = Some 0\<rparr>,
          reservaDados := \<lparr>current = JNumber 16, maximum = Some 16\<rparr>,
          mortalidadeData := \<lparr>penalty = Some 0, hunt = Some ''none''\<rparr>,
          flags := \<lparr>lastMortalityLevel = Some ''none'',
                    history = [MortalidadeEntry 0 ''none'' 0]\<rparr>\<rparr>)
     = Inr (6,
            blank_actor\<lparr>
              attributes := \<lparr>humanidade = Some 1, bestialidade = Some 11, mortalidade = Some 0\<rparr>,
              reservaDados := \<lparr>current = JNumber 12, maximum = Some 12\<rparr>,
              mortalidadeData := \<lparr>penalty = Some 0, hunt = Some ''none''\<rparr>,
              flags := \<lparr>lastMortalityLevel = Some ''none'',
                        history = [MortalidadeEntry 0 ''none'' 0,
                                   RollEntry 1000 ''briga'' 6 (- 3) 15 (Some 0)]\<rparr>\<rparr>,
            [ChatCreate \<lparr>msg_label = ''CONTRATO.SKILLS.BRIGA'', msg_d12 = 2, msg_skill = 0,
                          msg_umbral = True, msg_d6Value = 4, msg_situationalMod = 0,
                          msg_total = 6\<rparr>])
   \<and> \<not> pool_decremented
       (blank_actor\<lparr>
          attributes := \<lparr>humanidade = Some (- 3), bestialidade = Some 15, mortalidade = Some 0\<rparr>,
          reservaDados := \<lparr>current = JNumber 16, maximum = Some 16\<rparr>,
          mortalidadeData := \<lparr>penalty = Some 0, hunt = Some ''none''\<rparr>,
          flags := \<lparr>lastMortalityLevel = Some ''none'',
                    history = [MortalidadeEntry 0 ''none'' 0]\<rparr>\<rparr>)
       (blank_actor\<lparr>
          attributes := \<lparr>humanidade = Some 1, bestialidade = Some 11, mortalidade = Some 0\<rparr>,
          reservaDados := \<lparr>current = JNumber 12, maximum = Some 12\<rparr>,
          mortalidadeData := \<lparr>penalty = Some 0, hunt = Some ''none''\<rparr>,
          flags := \<lparr>lastMortalityLevel = Some ''none'',
                    history = [MortalidadeEntry 0 ''none'' 0,
                               RollEntry 1000 ''briga'' 6 (- 3) 15 (Some 0)]\<rparr>\<rparr>)"
  by (simp add: executeSkillRoll_def actor_update_def prepareDerivedData_def Let_def
        blank_actor_def CONFIG_Contrato_skills_def skills_property_def
        Object_prototype_keys_def pool_decremented_def)

text \<open>
  C5, amended. A roll resolved in umbral mode, on an actor whose attributes and pool are
  numbers: bestiality becomes \<open>min 11 (b + 1)\<close>, humanity becomes 12 minus the new
  bestiality, floored at 0, the die spent counts for the value of \<open>d6\<close> and the total
  returned is \<open>d12 + r + d6 + m\<close>. The pool goes from \<open>c\<close> to \<open>max 0 (c - 1)\<close> and is
  then clamped to the new maximum, the new bestiality plus 1, by the deriver pass that
  follows the update. The clamp changes nothing, and the pool is \<open>max 0 (c - 1)\<close>, when
  bestiality was between 0 and 11 and the pool at most bestiality + 1 before the roll.
\<close>

theorem umbral_roll:
  assumes "humanidade (attributes a) = Some h" and "bestialidade (attributes a) = Some b"
    and "current (reservaDados a) = JNumber c"
    and "map_of CONFIG_Contrato_skills skillKey = Some cfg"
    and "r = (case skills a skillKey of None \<Rightarrow> 0 | Some v \<Rightarrow> v)"
  shows "\<exists>a' e. executeSkillRoll sc now d6 d12 skillKey True m a
                  = Inr (d12 + r + d6 + m, a', e)
          \<and> bestialidade (attributes a') = Some (min 11 (b + 1))
          \<and> humanidade (attributes a') = Some (max 0 (12 - min 11 (b + 1)))
          \<and> current (reservaDados a')
              = JNumber (min (max 0 (c - 1)) (min 11 (b + 1) + 1))
          \<and> (0 \<le> b \<and> b \<le> 11 \<and> c \<le> b + 1 \<longrightarrow>
                current (reservaDados a') = JNumber (max 0 (c - 1)))
          \<and> last e = ChatCreate \<lparr>msg_label = label cfg, msg_d12 = d12, msg_skill = r,
                               msg_umbral = True, msg_d6Value = d6,
                               msg_situationalMod = m,
                               msg_total = d12 + r + d6 + m\<rparr>"
proof -
  define nb where "nb = min 11 (b + 1)"
  define nh where "nh = max 0 (12 - nb)"
  define a1 where "a1 = a\<lparr>reservaDados := (reservaDados a)\<lparr>current := JNumber (max 0 (c - 1))\<rparr>\<rparr>"
  define upd where "upd = actor_update sc now nb nh a1"
  have bal: "nh + nb = 12"
    by (simp add: nh_def nb_def)
  have at: "attributes (fst upd)
      = \<lparr>humanidade = Some nh, bestialidade = Some nb,
         mortalidade = Some (case mortalidade (attributes a1) of None \<Rightarrow> 0 | Some v \<Rightarrow> v)\<rparr>"
    unfolding upd_def by (rule actor_update_attributes [OF bal])
  have rd: "current (reservaDados (fst upd))
      = JNumber (if max 0 (c - 1) > nb + 1 then nb + 1 else max 0 (c - 1))"
    unfolding upd_def by (simp add: actor_update_reservaDados [OF bal] a1_def)
  have clamp: "(if q < p then q else p) = min p q" for p q :: int
    by (simp add: min_def)
  have exact: "current (reservaDados (fst upd)) = JNumber (min (max 0 (c - 1)) (nb + 1))"
    by (simp only: rd clamp)
  have cur: "0 \<le> b \<and> b \<le> 11 \<and> c \<le> b + 1 \<longrightarrow>
               min (max 0 (c - 1)) (nb + 1) = max 0 (c - 1)"
    by (auto simp add: nb_def)
  have res: "executeSkillRoll sc now d6 d12 skillKey True m a =
      Inr (d12 + r + d6 + m,
           (fst upd)\<lparr>flags := (flags (fst upd))\<lparr>history := history (flags (fst upd))
              @ [RollEntry now skillKey (d12 + r + d6 + m) h b
                   (mortalidade (attributes (fst upd)))]\<rparr>\<rparr>,
           snd upd @ [ChatCreate \<lparr>msg_label = label cfg, msg_d12 = d12, msg_skill = r,
                                  msg_umbral = True, msg_d6Value = d6,
                                  msg_situationalMod = m,
                                  msg_total = d12 + r + d6 + m\<rparr>])"
    unfolding upd_def nh_def nb_def a1_def
    by (simp add: executeSkillRoll_result [OF assms(1-4)] assms(5) Let_def)
  show ?thesis
    unfolding res using cur by (simp add: at exact nb_def [symmetric] nh_def [symmetric])
qed

theorem umbral_roll_witness:
  "\<exists>a' e. executeSkillRoll None 1000 4 2 ''briga'' True (- 1) scenario_actor = Inr (8, a', e)
      \<and> bestialidade (attributes a') = Some 7
      \<and> humanidade (attributes a') = Some 5
      \<and> current (reservaDados a') = JNumber 0
      \<and> last e = ChatCreate \<lparr>msg_label = ''CONTRATO.SKILLS.BRIGA'', msg_d12 = 2,
                           msg_skill = 3, msg_umbral = True, msg_d6Value = 4,
                           msg_situationalMod = - 1, msg_total = 8\<rparr>"
proof -
  have 1: "humanidade (attributes scenario_actor) = Some 6"
    and 2: "bestialidade (attributes scenario_actor) = Some 6"
    and 3: "current (reservaDados scenario_actor) = JNumber 1"
    and 5: "3 = (case skills scenario_actor ''briga'' of None \<Rightarrow> 0 | Some v \<Rightarrow> v)"
    by (simp_all add: scenario_actor_def)
  have 4: "map_of CONFIG_Contrato_skills ''briga''
             = Some \<lparr>label = ''CONTRATO.SKILLS.BRIGA'', skill_type = ''physical''\<rparr>"
    by (simp add: CONFIG_Contrato_skills_def)
  from umbral_roll [OF 1 2 3 4 5, of None 1000 4 2 "- 1"] show ?thesis
    by simp
qed

section \<open>The rejections of \<open>rollSkill\<close>\<close>

text \<open>
  What \<open>rollSkill\<close> does with a key that is missing or configured: a missing key is
  rejected with the warning of the unknown skill, a configured key with a pool of 0 or
  less is rejected with the warning that no die is left, both with the actor unchanged,
  and a configured key with a pool above 0 warns of nothing.
\<close>

lemma rollSkill_own_or_missing_key:
  "(skills_property skillKey = Missing \<longrightarrow>
      rollSkill sc now d6 d12 ch skillKey a
        = Inr (None, a, [NotifyWarn (UnknownSkill skillKey)]))
   \<and> (\<forall>cfg c. map_of CONFIG_Contrato_skills skillKey = Some cfg
              \<and> current (reservaDados a) = JNumber c \<and> c \<le> 0 \<longrightarrow>
      rollSkill sc now d6 d12 ch skillKey a
        = Inr (None, a, [NotifyWarn (NoResourceAvailable (label cfg))]))
   \<and> (\<forall>cfg c h b. map_of CONFIG_Contrato_skills skillKey = Some cfg
              \<and> current (reservaDados a) = JNumber c \<and> 0 < c
              \<and> humanidade (attributes a) = Some h \<and> bestialidade (attributes a) = Some b \<longrightarrow>
      (\<exists>res a' e. rollSkill sc now d6 d12 ch skillKey a = Inr (res, a', e)
          \<and> (\<forall>n. NotifyWarn n \<notin> set e)
          \<and> (ch = Dismissed \<longrightarrow> res = None \<and> a' = a \<and> e = [])
          \<and> (ch \<noteq> Dismissed \<longrightarrow> res \<noteq> None)))"
proof -
  have accepted: "\<exists>res a' e. rollSkill sc now d6 d12 ch skillKey a = Inr (res, a', e)
          \<and> (\<forall>n. NotifyWarn n \<notin> set e)
          \<and> (ch = Dismissed \<longrightarrow> res = None \<and> a' = a \<and> e = [])
          \<and> (ch \<noteq> Dismissed \<longrightarrow> res \<noteq> None)"
    if cfg: "map_of CONFIG_Contrato_skills skillKey = Some cfg"
      and c: "current (reservaDados a) = JNumber c" "0 < c"
      and h: "humanidade (attributes a) = Some h"
      and b: "bestialidade (attributes a) = Some b"
    for cfg c h b
  proof (cases ch)
    case Dismissed
    with cfg c show ?thesis by (simp add: rollSkill_def skills_property_own)
  next
    case (Sagrado mv)
    obtain t a' e where
      x: "executeSkillRoll sc now d6 d12 skillKey False mv a = Inr (t, a', e)"
      by (simp add: executeSkillRoll_result [OF h b c(1) cfg] Let_def)
    then have "rollSkill sc now d6 d12 ch skillKey a = Inr (Some t, a', e)"
      using cfg c Sagrado by (simp add: rollSkill_def skills_property_own)
    with Sagrado executeSkillRoll_no_notification [OF x] show ?thesis by simp
  next
    case (Umbral mv)
    obtain t a' e where
      x: "executeSkillRoll sc now d6 d12 skillKey True mv a = Inr (t, a', e)"
      by (simp add: executeSkillRoll_result [OF h b c(1) cfg] Let_def)
    then have "rollSkill sc now d6 d12 ch skillKey a = Inr (Some t, a', e)"
      using cfg c Umbral by (simp add: rollSkill_def skills_property_own)
    with Umbral executeSkillRoll_no_notification [OF x] show ?thesis by simp
  qed
  show ?thesis
  proof (intro conjI allI impI, goal_cases)
    case 1
    then show ?case by (simp add: rollSkill_def skills_property_own)
  next
    case (2 cfg c)
    then show ?case by (simp add: rollSkill_def skills_property_own)
  next
    case (3 cfg c h b)
    then show ?case using accepted [of cfg c h b] by simp
  qed
qed

text \<open>
  C6. \<open>rollSkill\<close> rejects a key that is not in the configured skill set with the
  warning of the unknown skill and leaves the actor unchanged. The code does not do so
  for a key of \<open>Object.prototype\<close>. The key \<open>constructor\<close> is not configured, and yet:
  with the dialog dismissed nothing is reported; with an empty pool the warning is the
  one of the empty pool, for the skill \<open>undefined\<close>; and with the umbral button pressed
  the roll is resolved, with the total \<open>NaN\<close>, after the pool went from 1 to 0 and the
  attributes from 6 and 6 to 5 and 7.
\<close>

theorem rollSkill_inherited_key:
  "map_of CONFIG_Contrato_skills ''constructor'' = None
   \<and> rollSkill None 1000 5 7 Dismissed ''constructor'' scenario_actor
        = Inr (None, scenario_actor, [])
   \<and> rollSkill None 1000 5 7 (Umbral 0) ''constructor''
        (scenario_actor\<lparr>reservaDados := \<lparr>current = JNumber 0, maximum = Some 7\<rparr>\<rparr>)
        = Inr (None, scenario_actor\<lparr>reservaDados := \<lparr>current = JNumber 0, maximum = Some 7\<rparr>\<rparr>,
               [NotifyWarn (NoResourceAvailable ''undefined'')])
   \<and> rollSkill None 1000 5 7 (Umbral 0) ''constructor'' scenario_actor
        = Inl (NaNTotal
                 (scenario_actor\<lparr>
                    attributes := \<lparr>humanidade = Some 5, bestialidade = Some 7,
                                   mortalidade = Some 0\<rparr>,
                    reservaDados := \<lparr>current = JNumber 0, maximum = Some 8\<rparr>\<rparr>)
                 [])"
  by (simp add: rollSkill_def executeSkillRoll_def actor_update_def prepareDerivedData_def
        Let_def scenario_actor_def CONFIG_Contrato_skills_def skills_property_def
        Object_prototype_keys_def)

section \<open>The history entry of a roll\<close>




end
